theory Spec2Isabelle
  imports Main
begin

unbundle bit_operations_syntax

section \<open>Piece model (class Chess.Piece)\<close>

text \<open>Pieces are Python integers; the board may hold any integer, the constants are 0..12.\<close>

definition NONE :: int where "NONE = 0"
definition WHITE_PAWN :: int where "WHITE_PAWN = 1"
definition WHITE_ROOK :: int where "WHITE_ROOK = 2"
definition WHITE_KNIGHT :: int where "WHITE_KNIGHT = 3"
definition WHITE_BISHOP :: int where "WHITE_BISHOP = 4"
definition WHITE_QUEEN :: int where "WHITE_QUEEN = 5"
definition WHITE_KING :: int where "WHITE_KING = 6"
definition BLACK_PAWN :: int where "BLACK_PAWN = 7"
definition BLACK_ROOK :: int where "BLACK_ROOK = 8"
definition BLACK_KNIGHT :: int where "BLACK_KNIGHT = 9"
definition BLACK_BISHOP :: int where "BLACK_BISHOP = 10"
definition BLACK_QUEEN :: int where "BLACK_QUEEN = 11"
definition BLACK_KING :: int where "BLACK_KING = 12"

text \<open>\<open>Chess.Piece.get_fen\<close>: the FEN letter of a piece, the empty string for anything else.\<close>

definition piece_get_fen :: "int \<Rightarrow> string" where
  "piece_get_fen piece =
     (if piece = WHITE_PAWN then ''P'' else if piece = WHITE_ROOK then ''R''
      else if piece = WHITE_KNIGHT then ''N'' else if piece = WHITE_BISHOP then ''B''
      else if piece = WHITE_QUEEN then ''Q'' else if piece = WHITE_KING then ''K''
      else if piece = BLACK_PAWN then ''p'' else if piece = BLACK_ROOK then ''r''
      else if piece = BLACK_KNIGHT then ''n'' else if piece = BLACK_BISHOP then ''b''
      else if piece = BLACK_QUEEN then ''q'' else if piece = BLACK_KING then ''k''
      else [])"

definition get_promotion_pieces :: "bool \<Rightarrow> int list" where
  "get_promotion_pieces is_white =
     (if is_white then [WHITE_QUEEN, WHITE_ROOK, WHITE_BISHOP, WHITE_KNIGHT]
      else [BLACK_QUEEN, BLACK_ROOK, BLACK_BISHOP, BLACK_KNIGHT])"

section \<open>Python string and integer helpers\<close>

text \<open>Characters are modelled as ASCII; \<open>str.isdigit\<close>, \<open>int\<close> of one character and
  \<open>str.lower\<close> are the ASCII ones.\<close>

definition is_digit :: "char \<Rightarrow> bool" where
  "is_digit ch = (ch \<in> set ''0123456789'')"

definition digit_val :: "char \<Rightarrow> int" where
  "digit_val ch =
     (if ch = CHR ''1'' then 1 else if ch = CHR ''2'' then 2 else if ch = CHR ''3'' then 3
      else if ch = CHR ''4'' then 4 else if ch = CHR ''5'' then 5 else if ch = CHR ''6'' then 6
      else if ch = CHR ''7'' then 7 else if ch = CHR ''8'' then 8 else if ch = CHR ''9'' then 9
      else 0)"

definition digit_char :: "int \<Rightarrow> char" where
  "digit_char d = ''0123456789'' ! nat d"

text \<open>The decimal digits of a non-negative integer.\<close>

function str_pos :: "int \<Rightarrow> string" where
  "str_pos n = (if n < 10 then [digit_char n] else str_pos (n div 10) @ [digit_char (n mod 10)])"
  by pat_completeness auto
termination
  by (relation "measure nat") auto

declare str_pos.simps [simp del]

text \<open>Python's \<open>str\<close> on an integer.\<close>

definition str_int :: "int \<Rightarrow> string" where
  "str_int i = (if i < 0 then CHR ''-'' # str_pos (- i) else str_pos i)"

definition lower_char :: "char \<Rightarrow> char" where
  "lower_char ch =
     (case map_of (zip ''ABCDEFGHIJKLMNOPQRSTUVWXYZ'' ''abcdefghijklmnopqrstuvwxyz'') ch of
        None \<Rightarrow> ch
      | Some l \<Rightarrow> l)"

definition lower :: "string \<Rightarrow> string" where
  "lower s = map lower_char s"

section \<open>Square and coordinate codec\<close>

definition FILES :: "char list" where
  "FILES = ''ABCDEFGH''"

definition RANKS :: "char list" where
  "RANKS = ''87654321''"

text \<open>\<open>Chess.coords_to_square\<close>. Every call site of the source passes indices that it has
  checked to lie in 0..7.\<close>

definition coords_to_square :: "int \<Rightarrow> int \<Rightarrow> string" where
  "coords_to_square r c = [FILES ! nat c, RANKS ! nat r]"

text \<open>\<open>Chess.square_to_coords\<close>: \<open>None\<close> stands for the IndexError of a string shorter
  than two characters and the ValueError of \<open>int\<close> on a non-digit.\<close>

definition square_to_coords :: "string \<Rightarrow> (int \<times> int) option" where
  "square_to_coords square =
     (case square of
        f # d # _ \<Rightarrow> if is_digit d then Some (8 - digit_val d, int (of_char f) - 65) else None
      | _ \<Rightarrow> None)"

section \<open>Moves and the position state\<close>

record move =
  from_sq :: string
  to_sq :: string
  promotion :: "int option"

definition Move :: "string \<Rightarrow> string \<Rightarrow> int option \<Rightarrow> move" where
  "Move f t p = \<lparr>from_sq = f, to_sq = t, promotion = p\<rparr>"

text \<open>The entries of \<open>move_history\<close>.\<close>

record undo_record =
  u_move :: move
  u_from_piece :: int
  u_to_piece :: int
  u_castling_move :: bool
  u_en_passant_capture :: bool
  u_prev_en_passant :: "string option"
  u_castling_rights :: int
  u_halfmove :: int
  u_fullmove :: int
  u_promotion :: "int option"

text \<open>The dictionaries \<open>{over, reason, winner}\<close> and \<open>{winner, reason}\<close>.\<close>

record status =
  over :: bool
  reason :: "string option"
  winner :: "string option"

record timeout_info =
  t_winner :: string
  t_reason :: string

record move_result =
  m_over :: bool
  m_reason :: "string option"
  m_winner :: "string option"
  require_sync :: bool

text \<open>The fields of \<open>Chess.Board\<close>. \<open>moves_cache\<close> is \<open>None\<close> while the cached hash is
  \<open>None\<close>, otherwise the pair of the cached hash and the cached move list.\<close>

record position =
  board :: "int list list"
  white_to_play :: bool
  castling_rights :: int
  en_passant :: "string option"
  halfmove :: int
  fullmove :: int
  king_white :: "(int \<times> int) option"
  king_black :: "(int \<times> int) option"
  position_history :: "string list"
  move_history :: "undo_record list"
  white_time :: "int option"
  black_time :: "int option"
  timers_enabled :: bool
  timeout_result :: "timeout_info option"
  moves_cache :: "(string \<times> move list) option"

section \<open>Clock subsystem\<close>

definition set_timers :: "int option \<Rightarrow> int option \<Rightarrow> position \<Rightarrow> position" where
  "set_timers white_ms black_ms p =
     p\<lparr>white_time := white_ms, black_time := black_ms,
       timers_enabled := (white_ms \<noteq> None \<or> black_ms \<noteq> None),
       timeout_result := None\<rparr>"

text \<open>\<open>decrement_current_player_timer\<close>: the returned flag and the updated position.\<close>

definition decrement_current_player_timer :: "int \<Rightarrow> position \<Rightarrow> bool \<times> position" where
  "decrement_current_player_timer ms p =
     (if \<not> timers_enabled p then (False, p)
      else if white_to_play p \<and> white_time p \<noteq> None then
        (let t = the (white_time p) - ms in
         if t \<le> 0 then
           (True, p\<lparr>white_time := Some 0,
                    timeout_result := Some \<lparr>t_winner = ''black'', t_reason = ''timeout''\<rparr>\<rparr>)
         else (False, p\<lparr>white_time := Some t\<rparr>))
      else if \<not> white_to_play p \<and> black_time p \<noteq> None then
        (let t = the (black_time p) - ms in
         if t \<le> 0 then
           (True, p\<lparr>black_time := Some 0,
                    timeout_result := Some \<lparr>t_winner = ''white'', t_reason = ''timeout''\<rparr>\<rparr>)
         else (False, p\<lparr>black_time := Some t\<rparr>))
      else (False, p))"

definition get_player_time :: "bool \<Rightarrow> position \<Rightarrow> int option" where
  "get_player_time is_white p = (if is_white then white_time p else black_time p)"

section \<open>Board access\<close>

text \<open>\<open>self.board[r][c]\<close> where the source has checked \<open>0 <= r < 8\<close> and \<open>0 <= c < 8\<close>.\<close>

definition bget :: "int list list \<Rightarrow> int \<Rightarrow> int \<Rightarrow> int" where
  "bget b r c = b ! nat r ! nat c"

definition bset :: "int list list \<Rightarrow> int \<Rightarrow> int \<Rightarrow> int \<Rightarrow> int list list" where
  "bset b r c v = b[nat r := (b ! nat r)[nat c := v]]"

text \<open>Unchecked Python indexing: a negative index counts from the end, anything outside
  raises IndexError (\<open>None\<close>).\<close>

definition py_index :: "nat \<Rightarrow> int \<Rightarrow> nat option" where
  "py_index n i =
     (if 0 \<le> i \<and> i < int n then Some (nat i)
      else if - int n \<le> i \<and> i < 0 then Some (nat (int n + i))
      else None)"

definition py_bget :: "int list list \<Rightarrow> int \<Rightarrow> int \<Rightarrow> int option" where
  "py_bget b r c =
     (case py_index (length b) r of
        None \<Rightarrow> None
      | Some i \<Rightarrow>
          (case py_index (length (b ! i)) c of
             None \<Rightarrow> None
           | Some j \<Rightarrow> Some (b ! i ! j)))"

definition py_bset :: "int list list \<Rightarrow> int \<Rightarrow> int \<Rightarrow> int \<Rightarrow> int list list option" where
  "py_bset b r c v =
     (case py_index (length b) r of
        None \<Rightarrow> None
      | Some i \<Rightarrow>
          (case py_index (length (b ! i)) c of
             None \<Rightarrow> None
           | Some j \<Rightarrow> Some (b[i := (b ! i)[j := v]])))"

definition on_board :: "int \<Rightarrow> int \<Rightarrow> bool" where
  "on_board r c = (0 \<le> r \<and> r < 8 \<and> 0 \<le> c \<and> c < 8)"

text \<open>The pairs visited by \<open>for r in range(8): for c in range(8)\<close>, in that order.\<close>

definition all_squares :: "(int \<times> int) list" where
  "all_squares = concat (map (\<lambda>r. map (\<lambda>c. (r, c)) [0..7]) [0..7])"

text \<open>\<open>set_piece\<close> and \<open>get_piece\<close>; \<open>None\<close> is the exception of \<open>square_to_coords\<close>.\<close>

definition set_piece :: "int \<Rightarrow> string \<Rightarrow> position \<Rightarrow> position option" where
  "set_piece piece square p =
     (if square = [] then Some p
      else case square_to_coords square of
        None \<Rightarrow> None
      | Some coords \<Rightarrow>
          if on_board (fst coords) (snd coords) then
            Some (p\<lparr>board := bset (board p) (fst coords) (snd coords) piece,
                    king_white := (if piece = WHITE_KING then Some coords else king_white p),
                    king_black := (if piece = WHITE_KING then king_black p
                                   else if piece = BLACK_KING then Some coords
                                   else king_black p)\<rparr>)
          else Some p)"

definition get_piece :: "string \<Rightarrow> position \<Rightarrow> int option" where
  "get_piece square p =
     (if square = [] then Some NONE
      else case square_to_coords square of
        None \<Rightarrow> None
      | Some coords \<Rightarrow>
          if on_board (fst coords) (snd coords)
          then Some (bget (board p) (fst coords) (snd coords)) else Some NONE)"

section \<open>Position hash\<close>

definition hash_row :: "int list \<Rightarrow> string" where
  "hash_row row =
     concat (map (\<lambda>c. str_int (row ! c) @ (if c < 7 then '','' else [])) [0..<8])"

definition hash_board :: "int list list \<Rightarrow> string" where
  "hash_board b =
     concat (map (\<lambda>r. hash_row (b ! r) @ (if r < 7 then ''/'' else [])) [0..<8])"

text \<open>\<open>self.en_passant or '-'\<close>: \<open>None\<close> and the empty string both give \<open>'-'\<close>.\<close>

definition ep_truthy :: "string option \<Rightarrow> bool" where
  "ep_truthy ep = (case ep of None \<Rightarrow> False | Some s \<Rightarrow> s \<noteq> [])"

definition get_position_hash :: "position \<Rightarrow> string" where
  "get_position_hash p =
     (if white_to_play p then ''w'' else ''b'')
     @ ''|'' @ str_int (castling_rights p)
     @ ''|'' @ (if ep_truthy (en_passant p) then the (en_passant p) else ''-'')
     @ ''|'' @ hash_board (board p)"

definition is_threefold_repetition :: "position \<Rightarrow> bool" where
  "is_threefold_repetition p =
     (if length (position_history p) < 4 then False
      else length (filter (\<lambda>h. h = get_position_hash p) (position_history p)) \<ge> 3)"

section \<open>Attack detector\<close>

definition knight_moves :: "(int \<times> int) list" where
  "knight_moves = [(-2,-1),(-2,1),(-1,-2),(-1,2),(1,-2),(1,2),(2,-1),(2,1)]"

definition king_moves :: "(int \<times> int) list" where
  "king_moves = [(-1,-1),(-1,0),(-1,1),(0,-1),(0,1),(1,-1),(1,0),(1,1)]"

definition rook_directions :: "(int \<times> int) list" where
  "rook_directions = [(0,1),(0,-1),(1,0),(-1,0)]"

definition bishop_directions :: "(int \<times> int) list" where
  "bishop_directions = [(1,1),(1,-1),(-1,1),(-1,-1)]"

definition queen_directions :: "(int \<times> int) list" where
  "queen_directions = [(0,1),(0,-1),(1,0),(-1,0),(1,1),(1,-1),(-1,1),(-1,-1)]"

text \<open>The measure of the \<open>while 0<=nr<8 and 0<=nc<8\<close> loops: the distance to the edge the
  ray runs towards. The direction (0,0) does not occur in the source's direction lists;
  the functions below stop on it so that they are total.\<close>

definition ray_measure :: "int \<Rightarrow> int \<Rightarrow> int \<Rightarrow> int \<Rightarrow> nat" where
  "ray_measure nr nc dr dc =
     (if dr > 0 then nat (8 - nr) else if dr < 0 then nat (nr + 1)
      else if dc > 0 then nat (8 - nc) else nat (nc + 1))"

text \<open>One ray of the sliding part of \<open>_is_square_attacked\<close>: the first non-empty square
  decides.\<close>

function ray_attacked :: "int list list \<Rightarrow> int \<Rightarrow> int \<Rightarrow> int \<Rightarrow> int \<Rightarrow> bool \<Rightarrow> bool \<Rightarrow> bool" where
  "ray_attacked b nr nc dr dc is_rook_dir by_white =
     (if (dr = 0 \<and> dc = 0) \<or> \<not> on_board nr nc then False
      else
        (let piece = bget b nr nc in
         if piece \<noteq> NONE then
           ((if by_white then WHITE_PAWN else BLACK_PAWN) \<le> piece
            \<and> piece \<le> (if by_white then WHITE_KING else BLACK_KING)
            \<and> (piece = (if by_white then WHITE_QUEEN else BLACK_QUEEN)
               \<or> (is_rook_dir \<and> piece = (if by_white then WHITE_ROOK else BLACK_ROOK))
               \<or> (\<not> is_rook_dir \<and> piece = (if by_white then WHITE_BISHOP else BLACK_BISHOP))))
         else ray_attacked b (nr + dr) (nc + dc) dr dc is_rook_dir by_white))"
  by pat_completeness auto
termination
  by (relation "measure (\<lambda>(b, nr, nc, dr, dc, x, y). ray_measure nr nc dr dc)")
     (auto simp: ray_measure_def on_board_def)

declare ray_attacked.simps [simp del]

text \<open>\<open>_is_square_attacked\<close> reads only \<open>self.board\<close>; every access is range-checked.\<close>

definition is_square_attacked :: "int list list \<Rightarrow> int \<Rightarrow> int \<Rightarrow> bool \<Rightarrow> bool" where
  "is_square_attacked b r c by_white =
     (let pawn_dir = (if by_white then 1 else -1);
          pawn_r = r + pawn_dir
      in
        (0 \<le> pawn_r \<and> pawn_r < 8 \<and>
           list_ex (\<lambda>dc. let pawn_c = c + dc in
                      0 \<le> pawn_c \<and> pawn_c < 8 \<and>
                      bget b pawn_r pawn_c = (if by_white then WHITE_PAWN else BLACK_PAWN))
             [-1, 1])
        \<or> list_ex (\<lambda>(dr, dc). on_board (r + dr) (c + dc) \<and>
                      bget b (r + dr) (c + dc) = (if by_white then WHITE_KNIGHT else BLACK_KNIGHT))
             knight_moves
        \<or> list_ex (\<lambda>(i, (dr, dc)). ray_attacked b (r + dr) (c + dc) dr dc (i < 4) by_white)
             (zip [0..<8] queen_directions)
        \<or> list_ex (\<lambda>(dr, dc). on_board (r + dr) (c + dc) \<and>
                      bget b (r + dr) (c + dc) = (if by_white then WHITE_KING else BLACK_KING))
             king_moves)"

definition king_pos_of :: "bool \<Rightarrow> position \<Rightarrow> (int \<times> int) option" where
  "king_pos_of is_white p = (if is_white then king_white p else king_black p)"

definition is_king_attacked :: "bool \<Rightarrow> position \<Rightarrow> bool" where
  "is_king_attacked is_white p =
     (case king_pos_of is_white p of
        None \<Rightarrow> False
      | Some king_pos \<Rightarrow>
          is_square_attacked (board p) (fst king_pos) (snd king_pos) (\<not> is_white))"

section \<open>Move generator\<close>

text \<open>Each generator appends to the list \<open>moves\<close> it is given and returns the extended list.\<close>

definition is_enemy :: "bool \<Rightarrow> int \<Rightarrow> bool" where
  "is_enemy is_white target =
     ((if is_white then BLACK_PAWN else WHITE_PAWN) \<le> target
      \<and> target \<le> (if is_white then BLACK_KING else WHITE_KING))"

definition is_friendly :: "bool \<Rightarrow> int \<Rightarrow> bool" where
  "is_friendly is_white target =
     ((if is_white then WHITE_PAWN else BLACK_PAWN) \<le> target
      \<and> target \<le> (if is_white then WHITE_KING else BLACK_KING))"

text \<open>\<open>_generate_pawn_moves\<close>; \<open>None\<close> is the exception of \<open>square_to_coords\<close> on the en
  passant target.\<close>

definition generate_pawn_moves ::
  "position \<Rightarrow> int \<Rightarrow> int \<Rightarrow> string \<Rightarrow> bool \<Rightarrow> move list \<Rightarrow> move list option" where
  "generate_pawn_moves p r c from_sq' is_white moves =
     (let direction = (if is_white then -1 else 1);
          start_rank = (if is_white then 6 else 1);
          promotion_rank = (if is_white then 0 else 7);
          new_r = r + direction;
          moves1 =
            (if 0 \<le> new_r \<and> new_r < 8 \<and> bget (board p) new_r c = NONE then
               (let to = coords_to_square new_r c in
                if new_r = promotion_rank then
                  moves @ map (\<lambda>piece. Move from_sq' to (Some piece)) (get_promotion_pieces is_white)
                else
                  (let ms = moves @ [Move from_sq' to None] in
                   if r = start_rank \<and> bget (board p) (r + 2 * direction) c = NONE then
                     ms @ [Move from_sq' (coords_to_square (r + 2 * direction) c) None]
                   else ms))
             else moves);
          moves2 =
            fold (\<lambda>dc ms.
                    let new_c = c + dc in
                    if 0 \<le> new_r \<and> new_r < 8 \<and> 0 \<le> new_c \<and> new_c < 8 then
                      (let target = bget (board p) new_r new_c in
                       if is_enemy is_white target then
                         (let to = coords_to_square new_r new_c in
                          if new_r = promotion_rank then
                            ms @ map (\<lambda>piece. Move from_sq' to (Some piece))
                                   (get_promotion_pieces is_white)
                          else ms @ [Move from_sq' to None])
                       else ms)
                    else ms)
                 [-1, 1] moves1
      in
        if ep_truthy (en_passant p) then
          (case square_to_coords (the (en_passant p)) of
             None \<Rightarrow> None
           | Some ep_coords \<Rightarrow>
               (let correct_rank = (if is_white then 3 else 4) in
                if r = correct_rank \<and> abs (c - snd ep_coords) = 1 then
                  Some (moves2 @ [Move from_sq' (the (en_passant p)) None])
                else Some moves2))
        else Some moves2)"

text \<open>One ray of \<open>_generate_sliding_moves\<close>.\<close>

function slide ::
  "int list list \<Rightarrow> int \<Rightarrow> int \<Rightarrow> int \<Rightarrow> int \<Rightarrow> string \<Rightarrow> bool \<Rightarrow> move list \<Rightarrow> move list" where
  "slide b nr nc dr dc from_sq' is_white moves =
     (if (dr = 0 \<and> dc = 0) \<or> \<not> on_board nr nc then moves
      else
        (let target = bget b nr nc in
         if target = NONE then
           slide b (nr + dr) (nc + dc) dr dc from_sq' is_white
             (moves @ [Move from_sq' (coords_to_square nr nc) None])
         else if is_enemy is_white target then
           moves @ [Move from_sq' (coords_to_square nr nc) None]
         else if is_friendly is_white target then moves
         else slide b (nr + dr) (nc + dc) dr dc from_sq' is_white moves))"
  by pat_completeness auto
termination
  by (relation "measure (\<lambda>(b, nr, nc, dr, dc, f, w, ms). ray_measure nr nc dr dc)")
     (auto simp: ray_measure_def on_board_def)

declare slide.simps [simp del]

definition generate_sliding_moves ::
  "position \<Rightarrow> int \<Rightarrow> int \<Rightarrow> string \<Rightarrow> bool \<Rightarrow> (int \<times> int) list \<Rightarrow> move list \<Rightarrow> move list" where
  "generate_sliding_moves p r c from_sq' is_white directions moves =
     fold (\<lambda>(dr, dc) ms. slide (board p) (r + dr) (c + dc) dr dc from_sq' is_white ms)
       directions moves"

definition generate_rook_moves ::
  "position \<Rightarrow> int \<Rightarrow> int \<Rightarrow> string \<Rightarrow> bool \<Rightarrow> move list \<Rightarrow> move list" where
  "generate_rook_moves p r c from_sq' is_white moves =
     generate_sliding_moves p r c from_sq' is_white rook_directions moves"

definition generate_bishop_moves ::
  "position \<Rightarrow> int \<Rightarrow> int \<Rightarrow> string \<Rightarrow> bool \<Rightarrow> move list \<Rightarrow> move list" where
  "generate_bishop_moves p r c from_sq' is_white moves =
     generate_sliding_moves p r c from_sq' is_white bishop_directions moves"

definition generate_queen_moves ::
  "position \<Rightarrow> int \<Rightarrow> int \<Rightarrow> string \<Rightarrow> bool \<Rightarrow> move list \<Rightarrow> move list" where
  "generate_queen_moves p r c from_sq' is_white moves =
     generate_sliding_moves p r c from_sq' is_white queen_directions moves"

text \<open>The offset loop shared by \<open>_generate_knight_moves\<close> and \<open>_generate_king_moves\<close>: a
  destination on the board is taken unless a friendly piece stands on it.\<close>

definition step_moves ::
  "position \<Rightarrow> int \<Rightarrow> int \<Rightarrow> string \<Rightarrow> bool \<Rightarrow> (int \<times> int) list \<Rightarrow> move list \<Rightarrow> move list" where
  "step_moves p r c from_sq' is_white offsets moves =
     fold (\<lambda>(dr, dc) ms.
             let nr = r + dr; nc = c + dc in
             if on_board nr nc then
               (let target = bget (board p) nr nc in
                if target = NONE \<or> \<not> is_friendly is_white target then
                  ms @ [Move from_sq' (coords_to_square nr nc) None]
                else ms)
             else ms)
       offsets moves"

definition generate_knight_moves ::
  "position \<Rightarrow> int \<Rightarrow> int \<Rightarrow> string \<Rightarrow> bool \<Rightarrow> move list \<Rightarrow> move list" where
  "generate_knight_moves p r c from_sq' is_white moves =
     step_moves p r c from_sq' is_white knight_moves moves"

text \<open>The castling part of \<open>_generate_king_moves\<close> for one wing: rights bit \<open>rbit\<close>, home
  row \<open>row\<close>, the columns that must be empty and those that must not be attacked.\<close>

definition castle_ok ::
  "position \<Rightarrow> bool \<Rightarrow> int \<Rightarrow> int \<Rightarrow> int list \<Rightarrow> int list \<Rightarrow> bool" where
  "castle_ok p is_white rbit row empty_cols safe_cols =
     ((castling_rights p AND rbit) \<noteq> 0 \<and> \<not> is_king_attacked is_white p
      \<and> list_all (\<lambda>c. bget (board p) row c = NONE) empty_cols
      \<and> list_all (\<lambda>c. \<not> is_square_attacked (board p) row c (\<not> is_white)) safe_cols)"

definition generate_king_moves ::
  "position \<Rightarrow> int \<Rightarrow> int \<Rightarrow> string \<Rightarrow> bool \<Rightarrow> move list \<Rightarrow> move list" where
  "generate_king_moves p r c from_sq' is_white moves =
     (let moves1 = step_moves p r c from_sq' is_white king_moves moves in
      if is_white \<and> r = 7 \<and> c = 4 then
        (let moves2 = (if castle_ok p True 1 7 [5, 6] [5, 6]
                       then moves1 @ [Move from_sq' ''G1'' None] else moves1)
         in if castle_ok p True 2 7 [3, 2, 1] [3, 2]
            then moves2 @ [Move from_sq' ''C1'' None] else moves2)
      else if \<not> is_white \<and> r = 0 \<and> c = 4 then
        (let moves2 = (if castle_ok p False 4 0 [5, 6] [5, 6]
                       then moves1 @ [Move from_sq' ''G8'' None] else moves1)
         in if castle_ok p False 8 0 [3, 2, 1] [3, 2]
            then moves2 @ [Move from_sq' ''C8'' None] else moves2)
      else moves1)"

definition generate_moves_for_piece ::
  "position \<Rightarrow> int \<Rightarrow> int \<Rightarrow> int \<Rightarrow> move list \<Rightarrow> move list option" where
  "generate_moves_for_piece p r c piece moves =
     (let from_sq' = coords_to_square r c;
          is_white = (piece \<le> WHITE_KING)
      in
        if piece = WHITE_PAWN \<or> piece = BLACK_PAWN then
          generate_pawn_moves p r c from_sq' is_white moves
        else if piece = WHITE_ROOK \<or> piece = BLACK_ROOK then
          Some (generate_rook_moves p r c from_sq' is_white moves)
        else if piece = WHITE_KNIGHT \<or> piece = BLACK_KNIGHT then
          Some (generate_knight_moves p r c from_sq' is_white moves)
        else if piece = WHITE_BISHOP \<or> piece = BLACK_BISHOP then
          Some (generate_bishop_moves p r c from_sq' is_white moves)
        else if piece = WHITE_QUEEN \<or> piece = BLACK_QUEEN then
          Some (generate_queen_moves p r c from_sq' is_white moves)
        else if piece = WHITE_KING \<or> piece = BLACK_KING then
          Some (generate_king_moves p r c from_sq' is_white moves)
        else Some moves)"

text \<open>A loop whose body may raise: the first \<open>None\<close> ends it.\<close>

fun fold_opt :: "('a \<Rightarrow> 'b \<Rightarrow> 'b option) \<Rightarrow> 'a list \<Rightarrow> 'b \<Rightarrow> 'b option" where
  "fold_opt f [] s = Some s"
| "fold_opt f (x # xs) s = (case f x s of None \<Rightarrow> None | Some s' \<Rightarrow> fold_opt f xs s')"

text \<open>The double loop of \<open>get_moves\<close> that collects the pseudo-legal moves.\<close>

definition pseudo_legal_moves :: "position \<Rightarrow> move list option" where
  "pseudo_legal_moves p =
     fold_opt (\<lambda>(r, c) moves.
                 let piece = bget (board p) r c in
                 if piece = NONE then Some moves
                 else if (piece \<le> WHITE_KING) \<noteq> white_to_play p then Some moves
                 else generate_moves_for_piece p r c piece moves)
       all_squares []"

section \<open>Legality filter\<close>

text \<open>\<open>_is_move_legal\<close> writes the two squares of the move into \<open>self.board\<close>, asks the
  attack detector and writes the old contents back; the result is the answer and the
  position it leaves. \<open>None\<close> is an exception: of \<open>square_to_coords\<close>, of an index out of
  range, or of subscripting a king position that is \<open>None\<close>.\<close>

definition is_move_legal ::
  "move \<Rightarrow> (int \<times> int) option \<Rightarrow> position \<Rightarrow> (bool \<times> position) option" where
  "is_move_legal mv king_pos p =
     (case square_to_coords (from_sq mv) of None \<Rightarrow> None | Some from_coords \<Rightarrow>
     (case square_to_coords (to_sq mv) of None \<Rightarrow> None | Some to_coords \<Rightarrow>
     (case py_bget (board p) (fst from_coords) (snd from_coords) of
        None \<Rightarrow> None | Some from_piece \<Rightarrow>
     (case py_bget (board p) (fst to_coords) (snd to_coords) of
        None \<Rightarrow> None | Some to_piece \<Rightarrow>
     (case py_bset (board p) (fst from_coords) (snd from_coords) NONE of
        None \<Rightarrow> None | Some b1 \<Rightarrow>
     (case py_bset b1 (fst to_coords) (snd to_coords) from_piece of
        None \<Rightarrow> None | Some b2 \<Rightarrow>
     (case (if from_piece = WHITE_KING \<or> from_piece = BLACK_KING then Some to_coords
            else king_pos) of None \<Rightarrow> None | Some new_king_pos \<Rightarrow>
     (let is_legal = \<not> is_square_attacked b2 (fst new_king_pos) (snd new_king_pos)
                         (\<not> white_to_play p) in
     (case py_bset b2 (fst from_coords) (snd from_coords) from_piece of
        None \<Rightarrow> None | Some b3 \<Rightarrow>
     (case py_bset b3 (fst to_coords) (snd to_coords) to_piece of
        None \<Rightarrow> None | Some b4 \<Rightarrow>
        Some (is_legal, p\<lparr>board := b4\<rparr>)))))))))))"

text \<open>The loop of \<open>_filter_legal_moves\<close>: the state is the list of legal moves so far and
  the position.\<close>

definition filter_step ::
  "(int \<times> int) option \<Rightarrow> move \<Rightarrow> move list \<times> position \<Rightarrow> (move list \<times> position) option" where
  "filter_step king_pos mv st =
     (case is_move_legal mv king_pos (snd st) of
        None \<Rightarrow> None
      | Some res \<Rightarrow> Some (if fst res then fst st @ [mv] else fst st, snd res))"

definition filter_legal_moves :: "move list \<Rightarrow> position \<Rightarrow> (move list \<times> position) option" where
  "filter_legal_moves moves p =
     fold_opt (filter_step (king_pos_of (white_to_play p) p)) moves ([], p)"

text \<open>\<open>get_moves\<close>: the cached list when the cached hash is the hash of the position,
  otherwise the filtered pseudo-legal moves, which are then cached.\<close>

definition get_moves :: "position \<Rightarrow> (move list \<times> position) option" where
  "get_moves p =
     (let position_hash = get_position_hash p in
      if (case moves_cache p of None \<Rightarrow> False | Some cache \<Rightarrow> fst cache = position_hash)
      then Some (snd (the (moves_cache p)), p)
      else
        (case pseudo_legal_moves p of
           None \<Rightarrow> None
         | Some moves \<Rightarrow>
             (case filter_legal_moves moves p of
                None \<Rightarrow> None
              | Some res \<Rightarrow>
                  Some (fst res, (snd res)\<lparr>moves_cache := Some (position_hash, fst res)\<rparr>))))"

section \<open>Terminal-state evaluator\<close>

definition count_pieces :: "int list list \<Rightarrow> int list \<Rightarrow> nat" where
  "count_pieces b kinds = length (filter (\<lambda>(r, c). bget b r c \<in> set kinds) all_squares)"

definition is_insufficient_material :: "position \<Rightarrow> bool" where
  "is_insufficient_material p =
     (let b = board p;
          white_other = count_pieces b [WHITE_PAWN, WHITE_ROOK, WHITE_QUEEN];
          black_other = count_pieces b [BLACK_PAWN, BLACK_ROOK, BLACK_QUEEN];
          white_bishops = count_pieces b [WHITE_BISHOP];
          black_bishops = count_pieces b [BLACK_BISHOP];
          white_knights = count_pieces b [WHITE_KNIGHT];
          black_knights = count_pieces b [BLACK_KNIGHT]
      in
        if white_other = 0 \<and> black_other = 0 \<and> white_bishops = 0 \<and> black_bishops = 0
           \<and> white_knights = 0 \<and> black_knights = 0 then True
        else if white_other = 0 \<and> black_other = 0
           \<and> ((white_bishops = 1 \<and> white_knights = 0 \<and> black_bishops = 0 \<and> black_knights = 0)
              \<or> (black_bishops = 1 \<and> black_knights = 0 \<and> white_bishops = 0 \<and> white_knights = 0))
          then True
        else if white_other = 0 \<and> black_other = 0
           \<and> ((white_knights = 1 \<and> white_bishops = 0 \<and> black_bishops = 0 \<and> black_knights = 0)
              \<or> (black_knights = 1 \<and> black_bishops = 0 \<and> white_bishops = 0 \<and> white_knights = 0))
          then True
        else if white_other = 0 \<and> black_other = 0 \<and> white_knights = 0 \<and> black_knights = 0
           \<and> white_bishops + black_bishops > 1 then
          (let bishop_colors =
                 map (\<lambda>(r, c). (r + c) mod 2)
                   (filter (\<lambda>(r, c). bget b r c = WHITE_BISHOP \<or> bget b r c = BLACK_BISHOP)
                      all_squares)
           in bishop_colors \<noteq> [] \<and> list_all (\<lambda>color. color = hd bishop_colors) bishop_colors)
        else False)"

definition opponent_name :: "bool \<Rightarrow> string" where
  "opponent_name white_moves = (if white_moves then ''black'' else ''white'')"

text \<open>\<open>is_game_over\<close>: the status and the position it leaves (\<open>get_moves\<close> fills the cache).\<close>

definition is_game_over :: "position \<Rightarrow> (status \<times> position) option" where
  "is_game_over p =
     (if timers_enabled p \<and> timeout_result p \<noteq> None then
        Some (\<lparr>over = True, reason = Some (t_reason (the (timeout_result p))),
               winner = Some (t_winner (the (timeout_result p)))\<rparr>, p)
      else if halfmove p \<ge> 100 then
        Some (\<lparr>over = True, reason = Some ''50-move rule'', winner = Some ''draw''\<rparr>, p)
      else if is_insufficient_material p then
        Some (\<lparr>over = True, reason = Some ''insufficient material'', winner = Some ''draw''\<rparr>, p)
      else if is_threefold_repetition p then
        Some (\<lparr>over = True, reason = Some ''threefold repetition'', winner = Some ''draw''\<rparr>, p)
      else
        (case get_moves p of
           None \<Rightarrow> None
         | Some res \<Rightarrow>
             (let moves = fst res; q = snd res in
              if moves = [] then
                (if is_king_attacked (white_to_play q) q then
                   Some (\<lparr>over = True, reason = Some ''checkmate'',
                          winner = Some (opponent_name (white_to_play q))\<rparr>, q)
                 else
                   Some (\<lparr>over = True, reason = Some ''stalemate'', winner = Some ''draw''\<rparr>, q))
              else Some (\<lparr>over = False, reason = None, winner = None\<rparr>, q))))"

section \<open>Move applier and undoer\<close>

text \<open>\<open>s[i]\<close> on a string: \<open>None\<close> is the IndexError. \<open>int(ch)\<close> on one character:
  \<open>None\<close> is the ValueError.\<close>

definition char_at :: "string \<Rightarrow> nat \<Rightarrow> char option" where
  "char_at s i = (if i < length s then Some (s ! i) else None)"

definition int_of_char :: "char \<Rightarrow> int option" where
  "int_of_char ch = (if is_digit ch then Some (digit_val ch) else None)"

text \<open>Truth value of an optional integer (\<open>None\<close> and 0 are false).\<close>

definition truthy :: "int option \<Rightarrow> bool" where
  "truthy x = (case x of None \<Rightarrow> False | Some v \<Rightarrow> v \<noteq> 0)"

text \<open>The castling block of \<open>make_move\<close> for one colour: king piece \<open>king\<close> on home square
  \<open>home\<close>; the wing is chosen by the destination and its rights bit; both bits of the colour
  are cleared whenever the king leaves its home square.\<close>

definition castle_wing ::
  "int \<Rightarrow> int \<Rightarrow> string \<Rightarrow> string \<Rightarrow> string \<Rightarrow> string \<Rightarrow> position \<Rightarrow> position option" where
  "castle_wing king rook king_to home rook_to rook_from p =
     (case set_piece king king_to p of None \<Rightarrow> None | Some p1 \<Rightarrow>
     (case set_piece NONE home p1 of None \<Rightarrow> None | Some p2 \<Rightarrow>
     (case set_piece rook rook_to p2 of None \<Rightarrow> None | Some p3 \<Rightarrow>
        set_piece NONE rook_from p3)))"

definition castling_step :: "move \<Rightarrow> int \<Rightarrow> position \<Rightarrow> (bool \<times> position) option" where
  "castling_step mv from_piece p =
     (if from_piece = WHITE_KING \<and> from_sq mv = ''E1'' then
        (case (if to_sq mv = ''G1'' \<and> (castling_rights p AND 1) \<noteq> 0 then
                 map_option (Pair True)
                   (castle_wing WHITE_KING WHITE_ROOK ''G1'' ''E1'' ''F1'' ''H1'' p)
               else if to_sq mv = ''C1'' \<and> (castling_rights p AND 2) \<noteq> 0 then
                 map_option (Pair True)
                   (castle_wing WHITE_KING WHITE_ROOK ''C1'' ''E1'' ''D1'' ''A1'' p)
               else Some (False, p)) of
           None \<Rightarrow> None
         | Some res \<Rightarrow>
             Some (fst res, (snd res)\<lparr>castling_rights := castling_rights (snd res) AND NOT 3\<rparr>))
      else if from_piece = BLACK_KING \<and> from_sq mv = ''E8'' then
        (case (if to_sq mv = ''G8'' \<and> (castling_rights p AND 4) \<noteq> 0 then
                 map_option (Pair True)
                   (castle_wing BLACK_KING BLACK_ROOK ''G8'' ''E8'' ''F8'' ''H8'' p)
               else if to_sq mv = ''C8'' \<and> (castling_rights p AND 8) \<noteq> 0 then
                 map_option (Pair True)
                   (castle_wing BLACK_KING BLACK_ROOK ''C8'' ''E8'' ''D8'' ''A8'' p)
               else Some (False, p)) of
           None \<Rightarrow> None
         | Some res \<Rightarrow>
             Some (fst res, (snd res)\<lparr>castling_rights := castling_rights (snd res) AND NOT 12\<rparr>))
      else Some (False, p))"

text \<open>The eight rook move/capture updates of the castling rights, in the source's order.\<close>

definition rook_rights :: "move \<Rightarrow> int \<Rightarrow> int \<Rightarrow> int \<Rightarrow> int" where
  "rook_rights mv from_piece to_piece cr =
     (let cr1 = (if from_piece = WHITE_ROOK \<and> from_sq mv = ''A1'' then cr AND NOT 2 else cr);
          cr2 = (if from_piece = WHITE_ROOK \<and> from_sq mv = ''H1'' then cr1 AND NOT 1 else cr1);
          cr3 = (if from_piece = BLACK_ROOK \<and> from_sq mv = ''A8'' then cr2 AND NOT 8 else cr2);
          cr4 = (if from_piece = BLACK_ROOK \<and> from_sq mv = ''H8'' then cr3 AND NOT 4 else cr3);
          cr5 = (if to_sq mv = ''A1'' \<and> to_piece = WHITE_ROOK then cr4 AND NOT 2 else cr4);
          cr6 = (if to_sq mv = ''H1'' \<and> to_piece = WHITE_ROOK then cr5 AND NOT 1 else cr5);
          cr7 = (if to_sq mv = ''A8'' \<and> to_piece = BLACK_ROOK then cr6 AND NOT 8 else cr6)
      in if to_sq mv = ''H8'' \<and> to_piece = BLACK_ROOK then cr7 AND NOT 4 else cr7)"

text \<open>The square of the pawn that an en passant capture removed: the file of the
  destination and its rank plus \<open>delta\<close>.\<close>

definition cap_square :: "string \<Rightarrow> int \<Rightarrow> string option" where
  "cap_square sq delta =
     (case char_at sq 0 of None \<Rightarrow> None | Some t0 \<Rightarrow>
     (case char_at sq 1 of None \<Rightarrow> None | Some t1 \<Rightarrow>
     (case int_of_char t1 of None \<Rightarrow> None | Some d \<Rightarrow> Some (t0 # str_int (d + delta)))))"

text \<open>The en passant block for a pawn of one colour: \<open>start\<close> and \<open>dbl\<close> are the rank
  characters of a double push, \<open>mid\<close> the rank of the new target, \<open>delta\<close> the rank offset of
  the captured pawn. The position passed in already has \<open>en_passant = None\<close>.\<close>

definition pawn_en_passant ::
  "move \<Rightarrow> string option \<Rightarrow> char \<Rightarrow> char \<Rightarrow> char \<Rightarrow> int \<Rightarrow> position
   \<Rightarrow> (bool \<times> position) option" where
  "pawn_en_passant mv prev_en_passant start dbl mid delta p =
     (case char_at (from_sq mv) 1 of None \<Rightarrow> None | Some f1 \<Rightarrow>
     (case (if f1 = start then map_option (\<lambda>t1. t1 = dbl) (char_at (to_sq mv) 1)
            else Some False) of None \<Rightarrow> None | Some double \<Rightarrow>
     (case (if double then
              map_option (\<lambda>f0. p\<lparr>en_passant := Some [f0, mid]\<rparr>) (char_at (from_sq mv) 0)
            else Some p) of None \<Rightarrow> None | Some p1 \<Rightarrow>
     (case (if Some (to_sq mv) = prev_en_passant then
              (case char_at (from_sq mv) 0 of None \<Rightarrow> None | Some f0 \<Rightarrow>
                 map_option (\<lambda>t0. f0 \<noteq> t0) (char_at (to_sq mv) 0))
            else Some False) of None \<Rightarrow> None | Some capture \<Rightarrow>
        if capture then
          (case cap_square (to_sq mv) delta of None \<Rightarrow> None | Some cap_sq \<Rightarrow>
             map_option (Pair True) (set_piece NONE cap_sq p1))
        else Some (False, p1)))))"

definition en_passant_step ::
  "move \<Rightarrow> int \<Rightarrow> string option \<Rightarrow> position \<Rightarrow> (bool \<times> position) option" where
  "en_passant_step mv from_piece prev_en_passant p =
     (case (if from_piece = WHITE_PAWN then
              pawn_en_passant mv prev_en_passant (CHR ''2'') (CHR ''4'') (CHR ''3'') (-1)
                (p\<lparr>en_passant := None\<rparr>)
            else Some (False, p\<lparr>en_passant := None\<rparr>)) of
        None \<Rightarrow> None
      | Some white \<Rightarrow>
          (case (if from_piece = BLACK_PAWN then
                   pawn_en_passant mv prev_en_passant (CHR ''7'') (CHR ''5'') (CHR ''6'') 1
                     (snd white)
                 else Some (False, snd white)) of
             None \<Rightarrow> None
           | Some black \<Rightarrow> Some (fst white \<or> fst black, snd black)))"

text \<open>The promotion block: the value of \<open>promotion\<close> (and of \<open>promoted_piece\<close>).\<close>

definition promotion_step :: "move \<Rightarrow> int \<Rightarrow> int option option" where
  "promotion_step mv from_piece =
     (case (if from_piece = WHITE_PAWN
            then map_option (\<lambda>t1. t1 = CHR ''8'') (char_at (to_sq mv) 1)
            else Some False) of
        None \<Rightarrow> None
      | Some w \<Rightarrow>
          if w then Some (Some (if truthy (promotion mv) then the (promotion mv) else WHITE_QUEEN))
          else
            (case (if from_piece = BLACK_PAWN
                   then map_option (\<lambda>t1. t1 = CHR ''1'') (char_at (to_sq mv) 1)
                   else Some False) of
               None \<Rightarrow> None
             | Some b \<Rightarrow>
                 if b then
                   Some (Some (if truthy (promotion mv) then the (promotion mv) else BLACK_QUEEN))
                 else Some None))"

definition status_result :: "status \<Rightarrow> bool \<Rightarrow> move_result" where
  "status_result st sync =
     \<lparr>m_over = over st, m_reason = reason st, m_winner = winner st, require_sync = sync\<rparr>"

text \<open>The bookkeeping of \<open>make_move\<close> once the board has been updated: the undo record
  is pushed, the halfmove clock reset or advanced, the fullmove number advanced after
  black's move, the side to move flipped and the hash of the new position appended.\<close>

definition record_move ::
  "move \<Rightarrow> int \<Rightarrow> int \<Rightarrow> bool \<Rightarrow> bool \<Rightarrow> string option \<Rightarrow> int \<Rightarrow> int option \<Rightarrow> position
   \<Rightarrow> position" where
  "record_move mv from_piece to_piece castling_move en_passant_capture prev_en_passant
     old_castling_rights promo p4 =
     (let p5 = p4\<lparr>move_history := move_history p4 @
                  [\<lparr>u_move = Move (from_sq mv) (to_sq mv) None, u_from_piece = from_piece,
                    u_to_piece = to_piece, u_castling_move = castling_move,
                    u_en_passant_capture = en_passant_capture,
                    u_prev_en_passant = prev_en_passant,
                    u_castling_rights = old_castling_rights,
                    u_halfmove = halfmove p4, u_fullmove = fullmove p4,
                    u_promotion = promo\<rparr>]\<rparr>;
          p6 = p5\<lparr>halfmove :=
                  (if from_piece = WHITE_PAWN \<or> from_piece = BLACK_PAWN \<or> to_piece \<noteq> NONE
                      \<or> en_passant_capture then 0 else halfmove p5 + 1)\<rparr>;
          p7 = (if \<not> white_to_play p6 then p6\<lparr>fullmove := fullmove p6 + 1\<rparr> else p6);
          p8 = p7\<lparr>white_to_play := \<not> white_to_play p7\<rparr>
      in p8\<lparr>position_history := position_history p8 @ [get_position_hash p8]\<rparr>)"

text \<open>The board update of \<open>make_move\<close> for a move that is not a castling move.\<close>

definition move_piece :: "move \<Rightarrow> int \<Rightarrow> int option \<Rightarrow> bool \<Rightarrow> position \<Rightarrow> position option" where
  "move_piece mv from_piece promo castling_move p3 =
     (if \<not> castling_move then
        (case set_piece (if truthy promo then the promo else from_piece) (to_sq mv) p3 of
           None \<Rightarrow> None
         | Some q \<Rightarrow> set_piece NONE (from_sq mv) q)
      else Some p3)"

definition final_result :: "status \<Rightarrow> bool \<Rightarrow> move_result" where
  "final_result final_game_over sync =
     (if over final_game_over then status_result final_game_over sync
      else \<lparr>m_over = False, m_reason = None, m_winner = None, require_sync = sync\<rparr>)"

text \<open>The part of \<open>make_move\<close> after the two early returns: it mutates the position.\<close>

definition apply_move :: "move \<Rightarrow> position \<Rightarrow> (move_result \<times> position) option" where
  "apply_move mv p =
     (case get_piece (from_sq mv) p of None \<Rightarrow> None | Some from_piece \<Rightarrow>
     (case get_piece (to_sq mv) p of None \<Rightarrow> None | Some to_piece \<Rightarrow>
     (case castling_step mv from_piece p of None \<Rightarrow> None | Some castled \<Rightarrow>
     (let castling_move = fst castled; p1 = snd castled in
     (case en_passant_step mv from_piece (en_passant p)
             (p1\<lparr>castling_rights := rook_rights mv from_piece to_piece (castling_rights p1)\<rparr>)
      of None \<Rightarrow> None | Some captured \<Rightarrow>
     (let en_passant_capture = fst captured; p3 = snd captured in
     (case promotion_step mv from_piece of None \<Rightarrow> None | Some promo \<Rightarrow>
     (case move_piece mv from_piece promo castling_move p3 of None \<Rightarrow> None | Some p4 \<Rightarrow>
     (case is_game_over
             (record_move mv from_piece to_piece castling_move en_passant_capture
                (en_passant p) (castling_rights p) promo p4)
      of None \<Rightarrow> None | Some final \<Rightarrow>
        Some (final_result (fst final)
                (castling_move \<or> en_passant_capture \<or> truthy promo), snd final))))))))))"

definition illegal_move_result :: "position \<Rightarrow> move_result" where
  "illegal_move_result p =
     \<lparr>m_over = True, m_reason = Some ''illegal move'',
      m_winner = Some (opponent_name (white_to_play p)), require_sync = False\<rparr>"

definition make_move :: "move \<Rightarrow> bool \<Rightarrow> position \<Rightarrow> (move_result \<times> position) option" where
  "make_move mv check_legal p =
     (case is_game_over p of
        None \<Rightarrow> None
      | Some initial \<Rightarrow>
          if over (fst initial) then Some (status_result (fst initial) False, snd initial)
          else if check_legal then
            (case get_moves (snd initial) of
               None \<Rightarrow> None
             | Some legal \<Rightarrow>
                 if \<not> list_ex (\<lambda>m. from_sq m = from_sq mv \<and> to_sq m = to_sq mv) (fst legal)
                 then Some (illegal_move_result (snd legal), snd legal)
                 else apply_move mv (snd legal))
          else apply_move mv (snd initial))"

text \<open>The rook squares restored by \<open>undo_move\<close> after a castling move.\<close>

definition undo_castling :: "move \<Rightarrow> position \<Rightarrow> position option" where
  "undo_castling mv p =
     (if from_sq mv = ''E1'' \<and> to_sq mv = ''G1'' then
        (case set_piece WHITE_ROOK ''H1'' p of None \<Rightarrow> None | Some q \<Rightarrow> set_piece NONE ''F1'' q)
      else if from_sq mv = ''E1'' \<and> to_sq mv = ''C1'' then
        (case set_piece WHITE_ROOK ''A1'' p of None \<Rightarrow> None | Some q \<Rightarrow> set_piece NONE ''D1'' q)
      else if from_sq mv = ''E8'' \<and> to_sq mv = ''G8'' then
        (case set_piece BLACK_ROOK ''H8'' p of None \<Rightarrow> None | Some q \<Rightarrow> set_piece NONE ''F8'' q)
      else if from_sq mv = ''E8'' \<and> to_sq mv = ''C8'' then
        (case set_piece BLACK_ROOK ''A8'' p of None \<Rightarrow> None | Some q \<Rightarrow> set_piece NONE ''D8'' q)
      else Some p)"

definition undo_en_passant :: "undo_record \<Rightarrow> position \<Rightarrow> position option" where
  "undo_en_passant last' p =
     (if u_from_piece last' = WHITE_PAWN then
        (case cap_square (to_sq (u_move last')) (-1) of
           None \<Rightarrow> None | Some cap_sq \<Rightarrow> set_piece BLACK_PAWN cap_sq p)
      else if u_from_piece last' = BLACK_PAWN then
        (case cap_square (to_sq (u_move last')) 1 of
           None \<Rightarrow> None | Some cap_sq \<Rightarrow> set_piece WHITE_PAWN cap_sq p)
      else Some p)"

text \<open>\<open>undo_move\<close>; both branches of the source's test on the promotion are the same two
  calls of \<open>set_piece\<close>.\<close>

definition undo_move :: "position \<Rightarrow> position option" where
  "undo_move p =
     (if move_history p = [] then Some p
      else
        (let last' = last (move_history p);
             p0 = p\<lparr>move_history := butlast (move_history p)\<rparr>
         in
        (case set_piece (u_from_piece last') (from_sq (u_move last')) p0 of
           None \<Rightarrow> None | Some p1 \<Rightarrow>
        (case set_piece (u_to_piece last') (to_sq (u_move last')) p1 of
           None \<Rightarrow> None | Some p2 \<Rightarrow>
        (case (if u_castling_move last' then undo_castling (u_move last') p2 else Some p2) of
           None \<Rightarrow> None | Some p3 \<Rightarrow>
        (case (if u_en_passant_capture last' then undo_en_passant last' p3 else Some p3) of
           None \<Rightarrow> None | Some p4 \<Rightarrow>
        (let p5 = p4\<lparr>castling_rights := u_castling_rights last',
                     en_passant := u_prev_en_passant last',
                     halfmove := u_halfmove last',
                     fullmove := u_fullmove last',
                     white_to_play := \<not> white_to_play p4\<rparr>
         in Some (if position_history p5 \<noteq> []
                  then p5\<lparr>position_history := butlast (position_history p5)\<rparr> else p5))))))))"

section \<open>FEN codec\<close>

text \<open>\<open>str.split(sep)\<close> with a one-character separator: empty pieces are kept.\<close>

fun split_on :: "char \<Rightarrow> string \<Rightarrow> string list" where
  "split_on sep [] = [[]]"
| "split_on sep (x # xs) =
     (if x = sep then [] # split_on sep xs
      else (case split_on sep xs of [] \<Rightarrow> [[x]] | w # ws \<Rightarrow> (x # w) # ws))"

text \<open>\<open>int(s)\<close> on a string: an optional sign and at least one ASCII digit. The other
  spellings Python accepts (surrounding white space, underscores between digits) are not
  modelled and count as the ValueError.\<close>

definition nat_of_digits :: "string \<Rightarrow> int" where
  "nat_of_digits s = foldl (\<lambda>acc ch. 10 * acc + digit_val ch) 0 s"

definition py_int :: "string \<Rightarrow> int option" where
  "py_int s =
     (case s of
        [] \<Rightarrow> None
      | ch # rest \<Rightarrow>
          if ch = CHR ''-'' \<or> ch = CHR ''+'' then
            (if rest \<noteq> [] \<and> list_all is_digit rest
             then Some ((if ch = CHR ''-'' then -1 else 1) * nat_of_digits rest) else None)
          else if list_all is_digit s then Some (nat_of_digits s) else None)"

definition piece_map :: "char \<Rightarrow> int" where
  "piece_map ch =
     (if ch = CHR ''P'' then WHITE_PAWN else if ch = CHR ''N'' then WHITE_KNIGHT
      else if ch = CHR ''B'' then WHITE_BISHOP else if ch = CHR ''R'' then WHITE_ROOK
      else if ch = CHR ''Q'' then WHITE_QUEEN else if ch = CHR ''K'' then WHITE_KING
      else if ch = CHR ''p'' then BLACK_PAWN else if ch = CHR ''n'' then BLACK_KNIGHT
      else if ch = CHR ''b'' then BLACK_BISHOP else if ch = CHR ''r'' then BLACK_ROOK
      else if ch = CHR ''q'' then BLACK_QUEEN else if ch = CHR ''k'' then BLACK_KING
      else NONE)"

text \<open>The inner loop of \<open>load_fen\<close> over the characters of one rank: the board and the
  column counter. Writing at a column beyond 7 is the IndexError.\<close>

fun load_row :: "string \<Rightarrow> int \<Rightarrow> int \<Rightarrow> int list list \<Rightarrow> int list list option" where
  "load_row [] r c b = Some b"
| "load_row (ch # rest) r c b =
     (if is_digit ch then load_row rest r (c + digit_val ch) b
      else if c < 8 then load_row rest r (c + 1) (bset b r c (piece_map ch))
      else None)"

definition load_rows :: "string list \<Rightarrow> int list list \<Rightarrow> int list list option" where
  "load_rows rows b =
     fold_opt (\<lambda>r b'. if nat r < length rows then load_row (rows ! nat r) r 0 b' else None)
       [0..7] b"

text \<open>\<open>_update_king_positions\<close>: the last king of each colour in scan order.\<close>

definition scan_king :: "int list list \<Rightarrow> int \<Rightarrow> (int \<times> int) option" where
  "scan_king b king =
     fold (\<lambda>(r, c) found. if bget b r c = king then Some (r, c) else found) all_squares None"

definition update_king_positions :: "position \<Rightarrow> position" where
  "update_king_positions p =
     p\<lparr>king_white := scan_king (board p) WHITE_KING,
       king_black := scan_king (board p) BLACK_KING\<rparr>"

definition empty_board :: "int list list" where
  "empty_board = replicate 8 (replicate 8 NONE)"

text \<open>\<open>load_fen\<close>; \<open>None\<close> is any exception (fewer than four fields, a counter that is
  not an integer, fewer than eight ranks, a rank that runs over the edge).\<close>

definition load_fen :: "string \<Rightarrow> position \<Rightarrow> position option" where
  "load_fen fen p =
     (let parts = split_on (CHR '' '') fen in
      if length parts < 4 then None
      else
        (let piece_placement = parts ! 0;
             active_color = parts ! 1;
             castling = parts ! 2;
             en_passant' = parts ! 3;
             cr1 = (if CHR ''K'' \<in> set castling then 0 OR 1 else 0);
             cr2 = (if CHR ''Q'' \<in> set castling then cr1 OR 2 else cr1);
             cr3 = (if CHR ''k'' \<in> set castling then cr2 OR 4 else cr2);
             cr4 = (if CHR ''q'' \<in> set castling then cr3 OR 8 else cr3)
         in
        (case (if length parts > 4 then py_int (parts ! 4) else Some 0) of
           None \<Rightarrow> None | Some hm \<Rightarrow>
        (case (if length parts > 5 then py_int (parts ! 5) else Some 1) of
           None \<Rightarrow> None | Some fm \<Rightarrow>
        (case load_rows (split_on (CHR ''/'') piece_placement)
                (fold (\<lambda>(r, c) b'. bset b' r c NONE) all_squares (board p)) of
           None \<Rightarrow> None | Some b \<Rightarrow>
        (let p1 = update_king_positions
                    (p\<lparr>board := b, white_to_play := (active_color = ''w''),
                       castling_rights := cr4,
                       en_passant := (if en_passant' = ''-'' then None else Some en_passant'),
                       halfmove := hm, fullmove := fm\<rparr>)
         in Some (p1\<lparr>position_history := [get_position_hash p1]\<rparr>)))))))"

definition DefaultFEN :: string where
  "DefaultFEN = ''rnbqkbnr/pppppppp/8/8/8/8/PPPPPPPP/RNBQKBNR w KQkq - 0 1''"

text \<open>\<open>Board.__init__\<close>. The fields that the constructor leaves to \<open>load_fen\<close> hold
  placeholders until \<open>load_fen\<close> has set them.\<close>

definition fresh_board :: position where
  "fresh_board =
     \<lparr>board = empty_board, white_to_play = True, castling_rights = 0, en_passant = None,
      halfmove = 0, fullmove = 1, king_white = None, king_black = None,
      position_history = [], move_history = [], white_time = None, black_time = None,
      timers_enabled = False, timeout_result = None, moves_cache = None\<rparr>"

definition Board :: "string option \<Rightarrow> position option" where
  "Board fen =
     load_fen (case fen of None \<Rightarrow> DefaultFEN | Some f \<Rightarrow> if f = [] then DefaultFEN else f)
       fresh_board"

text \<open>One rank of the placement field of \<open>get_fen\<close>: the text so far and the run of empty
  squares.\<close>

definition fen_row :: "int list \<Rightarrow> string" where
  "fen_row row =
     (let st = fold (\<lambda>c st.
                    let ch = piece_get_fen (row ! c) in
                    if ch = [] then (fst st, snd st + 1)
                    else ((if snd st > 0 then fst st @ str_int (snd st) else fst st) @ ch, 0))
                 [0..<8] ([], 0)
      in if snd st > 0 then fst st @ str_int (snd st) else fst st)"

definition get_fen :: "position \<Rightarrow> string" where
  "get_fen p =
     (let placement =
            concat (map (\<lambda>r. fen_row (board p ! r) @ (if r < 7 then ''/'' else [])) [0..<8]);
          castling =
            (if (castling_rights p AND 1) \<noteq> 0 then ''K'' else [])
            @ (if (castling_rights p AND 2) \<noteq> 0 then ''Q'' else [])
            @ (if (castling_rights p AND 4) \<noteq> 0 then ''k'' else [])
            @ (if (castling_rights p AND 8) \<noteq> 0 then ''q'' else [])
      in placement
         @ '' '' @ (if white_to_play p then ''w'' else ''b'')
         @ '' '' @ (if castling \<noteq> [] then castling else ''-'')
         @ '' '' @ (if ep_truthy (en_passant p) then lower (the (en_passant p)) else ''-'')
         @ '' '' @ str_int (halfmove p)
         @ '' '' @ str_int (fullmove p))"

section \<open>Positions used in the examples\<close>

definition pos_king_pawn :: position where
  "pos_king_pawn = the (Board (Some ''4k3/8/8/8/8/8/4P3/4K3 w - - 0 1''))"

definition pos_fifty :: position where
  "pos_fifty = the (Board (Some ''4k3/8/8/8/8/8/8/R3K3 w - - 100 80''))"

section \<open>Unfolding lemmas\<close>

lemmas piece_defs = NONE_def WHITE_PAWN_def WHITE_ROOK_def WHITE_KNIGHT_def
  WHITE_BISHOP_def WHITE_QUEEN_def WHITE_KING_def BLACK_PAWN_def BLACK_ROOK_def
  BLACK_KNIGHT_def BLACK_BISHOP_def BLACK_QUEEN_def BLACK_KING_def

section \<open>Clock subsystem: decrementing the clock of the side to move\<close>

text \<open>
  Claim C9. With timers enabled and a timer set for the side to move, decrementing by
  \<open>ms\<close> subtracts \<open>ms\<close> from that side's time; a result of zero or below is clamped to 0,
  latches the timeout result (opponent wins, reason "timeout") and returns true; otherwise,
  also with timers disabled or no timer for the mover, the call returns false and latches
  nothing.
\<close>

theorem decrement_timer_spec:
  "(timers_enabled p \<and> get_player_time (white_to_play p) p = Some t \<and> t - ms \<le> 0 \<longrightarrow>
      fst (decrement_current_player_timer ms p) = True
      \<and> get_player_time (white_to_play p) (snd (decrement_current_player_timer ms p)) = Some 0
      \<and> timeout_result (snd (decrement_current_player_timer ms p))
          = Some \<lparr>t_winner = opponent_name (white_to_play p), t_reason = ''timeout''\<rparr>)
   \<and> (timers_enabled p \<and> get_player_time (white_to_play p) p = Some t \<and> 0 < t - ms \<longrightarrow>
      fst (decrement_current_player_timer ms p) = False
      \<and> get_player_time (white_to_play p) (snd (decrement_current_player_timer ms p))
          = Some (t - ms)
      \<and> timeout_result (snd (decrement_current_player_timer ms p)) = timeout_result p)
   \<and> (\<not> timers_enabled p \<or> get_player_time (white_to_play p) p = None \<longrightarrow>
      decrement_current_player_timer ms p = (False, p))"
  by (cases "white_to_play p")
     (simp_all add: decrement_current_player_timer_def get_player_time_def opponent_name_def
        Let_def)

theorem decrement_timer_spec_witness:
  "fst (decrement_current_player_timer 500 (set_timers (Some 300) None fresh_board)) = True
   \<and> white_time (snd (decrement_current_player_timer 500
         (set_timers (Some 300) None fresh_board))) = Some 0
   \<and> timeout_result (snd (decrement_current_player_timer 500
         (set_timers (Some 300) None fresh_board)))
       = Some \<lparr>t_winner = ''black'', t_reason = ''timeout''\<rparr>
   \<and> fst (decrement_current_player_timer 100 (set_timers (Some 300) None fresh_board)) = False
   \<and> white_time (snd (decrement_current_player_timer 100
         (set_timers (Some 300) None fresh_board))) = Some 200
   \<and> timeout_result (snd (decrement_current_player_timer 100
         (set_timers (Some 300) None fresh_board))) = None
   \<and> decrement_current_player_timer 100 (set_timers None (Some 300) fresh_board)
       = (False, set_timers None (Some 300) fresh_board)
   \<and> decrement_current_player_timer 100 fresh_board = (False, fresh_board)"
  using decrement_timer_spec [of "set_timers (Some 300) None fresh_board" 300 500]
        decrement_timer_spec [of "set_timers (Some 300) None fresh_board" 300 100]
        decrement_timer_spec [of "set_timers None (Some 300) fresh_board" 0 100]
        decrement_timer_spec [of fresh_board 0 100]
  by code_simp

section \<open>The legality filter and the terminal test leave the position alone\<close>

text \<open>\<open>_is_move_legal\<close> writes two squares and writes them back; so \<open>get_moves\<close> and
  \<open>is_game_over\<close> change nothing but the cache of legal moves.\<close>

lemma py_bset_SomeD:
  assumes "py_bset b r c v = Some b'"
  shows "\<exists>i j. py_index (length b) r = Some i \<and> py_index (length (b ! i)) c = Some j
           \<and> i < length b \<and> j < length (b ! i) \<and> b' = b[i := (b ! i)[j := v]]"
  using assms
  by (auto simp: py_bset_def py_index_def split: option.splits if_splits)

lemma py_bget_SomeD:
  assumes "py_bget b r c = Some v"
  shows "\<exists>i j. py_index (length b) r = Some i \<and> py_index (length (b ! i)) c = Some j
           \<and> i < length b \<and> j < length (b ! i) \<and> v = b ! i ! j"
  using assms
  by (auto simp: py_bget_def py_index_def split: option.splits if_splits)

lemma cell_restore:
  fixes b :: "'a list list" and x :: 'a
  assumes "i < length b" "j < length (b ! i)" "i2 < length b" "j2 < length (b ! i2)"
  shows "(((b[i := (b ! i)[j := x]])
            [i2 := ((b[i := (b ! i)[j := x]]) ! i2)[j2 := b ! i ! j]])
            [i := (((b[i := (b ! i)[j := x]])
                     [i2 := ((b[i := (b ! i)[j := x]]) ! i2)[j2 := b ! i ! j]]) ! i)[j := b ! i ! j]])
          [i2 := ((((b[i := (b ! i)[j := x]])
            [i2 := ((b[i := (b ! i)[j := x]]) ! i2)[j2 := b ! i ! j]])
            [i := (((b[i := (b ! i)[j := x]])
                     [i2 := ((b[i := (b ! i)[j := x]]) ! i2)[j2 := b ! i ! j]]) ! i)[j := b ! i ! j]]) ! i2)
             [j2 := b ! i2 ! j2]] = b"
  using assms
  by (auto simp: list_eq_iff_nth_eq nth_list_update)

lemma is_move_legal_frame:
  assumes "is_move_legal mv k p = Some res"
  shows "snd res = p"
proof -
  from assms obtain fr fc tr tc fp tp b1 b2 b3 b4 where
    g1: "py_bget (board p) fr fc = Some fp" and g2: "py_bget (board p) tr tc = Some tp"
    and s1: "py_bset (board p) fr fc NONE = Some b1" and s2: "py_bset b1 tr tc fp = Some b2"
    and s3: "py_bset b2 fr fc fp = Some b3" and s4: "py_bset b3 tr tc tp = Some b4"
    and q: "snd res = p\<lparr>board := b4\<rparr>"
    by (auto simp: is_move_legal_def Let_def split: option.splits)
  from py_bget_SomeD[OF g1] obtain i j where ij: "py_index (length (board p)) fr = Some i"
    "py_index (length (board p ! i)) fc = Some j" "i < length (board p)" "j < length (board p ! i)"
    "fp = board p ! i ! j" by blast
  from py_bget_SomeD[OF g2] obtain i2 j2 where ij2: "py_index (length (board p)) tr = Some i2"
    "py_index (length (board p ! i2)) tc = Some j2" "i2 < length (board p)"
    "j2 < length (board p ! i2)" "tp = board p ! i2 ! j2" by blast
  have b1: "b1 = (board p)[i := (board p ! i)[j := NONE]]"
    using py_bset_SomeD[OF s1] ij by auto
  have l1: "length b1 = length (board p)" "length (b1 ! i2) = length (board p ! i2)"
    using ij ij2 by (auto simp: b1 nth_list_update)
  have b2: "b2 = b1[i2 := (b1 ! i2)[j2 := fp]]"
    using py_bset_SomeD[OF s2] ij2 l1 by auto
  have l2: "length b2 = length (board p)" "length (b2 ! i) = length (board p ! i)"
    using ij ij2 by (auto simp: b1 b2 nth_list_update)
  have b3: "b3 = b2[i := (b2 ! i)[j := fp]]"
    using py_bset_SomeD[OF s3] ij l2 by auto
  have l3: "length b3 = length (board p)" "length (b3 ! i2) = length (board p ! i2)"
    using ij ij2 by (auto simp: b1 b2 b3 nth_list_update)
  have b4: "b4 = b3[i2 := (b3 ! i2)[j2 := tp]]"
    using py_bset_SomeD[OF s4] ij2 l3 by auto
  have "b4 = board p"
    unfolding b4 b3 b2 b1 ij(5) ij2(5)
    by (rule cell_restore[OF ij(3,4) ij2(3,4)])
  then show ?thesis using q by simp
qed

lemma filter_step_frame:
  "filter_step k mv st = Some st' \<Longrightarrow> snd st' = snd st"
  by (auto simp: filter_step_def split: option.splits dest: is_move_legal_frame)

lemma filter_loop_frame:
  "fold_opt (filter_step k) moves st = Some st' \<Longrightarrow> snd st' = snd st"
proof (induction moves arbitrary: st)
  case Nil then show ?case by simp
next
  case (Cons m ms)
  then show ?case
    by (auto split: option.splits dest!: filter_step_frame)
qed

lemma filter_legal_moves_frame:
  "filter_legal_moves moves p = Some res \<Longrightarrow> snd res = p"
  unfolding filter_legal_moves_def by (drule filter_loop_frame) simp

lemma get_moves_frame:
  assumes "get_moves p = Some (ms, q)"
  shows "q = p \<or> q = p\<lparr>moves_cache := Some (get_position_hash p, ms)\<rparr>"
  using assms
  by (auto simp: get_moves_def Let_def split: if_splits option.splits
           dest!: filter_legal_moves_frame)

lemma hash_cache [simp]: "get_position_hash (p\<lparr>moves_cache := x\<rparr>) = get_position_hash p"
  by (simp add: get_position_hash_def)

lemma get_moves_same:
  "get_moves p = Some (ms, q) \<Longrightarrow> q = p\<lparr>moves_cache := moves_cache q\<rparr>"
  by (drule get_moves_frame) auto

lemma get_moves_again:
  assumes "get_moves p = Some (ms, q)"
  shows "get_moves q = Some (ms, q)"
proof -
  from get_moves_frame[OF assms] show ?thesis
  proof
    assume "q = p" with assms show ?thesis by simp
  next
    assume "q = p\<lparr>moves_cache := Some (get_position_hash p, ms)\<rparr>"
    then show ?thesis by (simp add: get_moves_def)
  qed
qed

lemma is_game_over_same:
  "is_game_over p = Some (st, q) \<Longrightarrow> q = p\<lparr>moves_cache := moves_cache q\<rparr>"
  by (auto simp: is_game_over_def Let_def split: if_splits option.splits prod.splits
           dest!: get_moves_same)

lemma is_game_over_not_over:
  assumes "is_game_over p = Some (st, q)" "\<not> over st"
  shows "\<exists>ms. ms \<noteq> [] \<and> get_moves p = Some (ms, q)"
  using assms
  by (auto simp: is_game_over_def Let_def split: if_splits option.splits prod.splits)



lemma same_but_cache_fields:
  assumes "q = p\<lparr>moves_cache := c\<rparr>"
  shows "board q = board p" "white_to_play q = white_to_play p"
    "castling_rights q = castling_rights p" "en_passant q = en_passant p"
    "halfmove q = halfmove p" "fullmove q = fullmove p"
    "position_history q = position_history p" "move_history q = move_history p"
    "king_white q = king_white p" "king_black q = king_black p"
    "white_time q = white_time p" "black_time q = black_time p"
    "timers_enabled q = timers_enabled p" "timeout_result q = timeout_result p"
  using assms by simp_all

section \<open>Illegal moves\<close>

text \<open>
  Claim C4. In a position that is not terminal, \<open>make_move\<close> with \<open>check_legal\<close> on a
  move whose from/to pair is not among the legal moves returns a result (no exception)
  that is game over with reason "illegal move" and the opponent of the side to move as
  winner.
\<close>

theorem illegal_move_forfeits:
  assumes "is_game_over p = Some (st, p1)" and "\<not> over st"
    and "get_moves p = Some (legal, p2)"
    and "\<not> list_ex (\<lambda>m. from_sq m = from_sq mv \<and> to_sq m = to_sq mv) legal"
  shows "\<exists>q. make_move mv True p =
           Some (\<lparr>m_over = True, m_reason = Some ''illegal move'',
                  m_winner = Some (opponent_name (white_to_play p)), require_sync = False\<rparr>, q)"
proof -
  from is_game_over_not_over[OF assms(1,2)] assms(3)
  have gm: "get_moves p = Some (legal, p1)" by auto
  have again: "get_moves p1 = Some (legal, p1)" by (rule get_moves_again[OF gm])
  have "white_to_play p1 = white_to_play p"
    by (subst get_moves_same[OF gm]) simp
  then show ?thesis
    using assms(1,2,4) again
    by (simp add: make_move_def illegal_move_result_def)
qed

theorem illegal_move_forfeits_witness:
  "\<exists>q. make_move (Move ''E2'' ''E5'' None) True pos_king_pawn =
         Some (\<lparr>m_over = True, m_reason = Some ''illegal move'', m_winner = Some ''black'',
                require_sync = False\<rparr>, q)"
proof -
  let ?p = "pos_king_pawn"
  have a: "is_game_over ?p \<noteq> None \<and> \<not> over (fst (the (is_game_over ?p)))" by code_simp
  have c: "get_moves ?p \<noteq> None \<and> \<not> list_ex (\<lambda>m. from_sq m = from_sq (Move ''E2'' ''E5'' None)
              \<and> to_sq m = to_sq (Move ''E2'' ''E5'' None)) (fst (the (get_moves ?p)))"
    by code_simp
  have w: "opponent_name (white_to_play ?p) = ''black''" by code_simp
  from a have a': "is_game_over ?p = Some (fst (the (is_game_over ?p)), snd (the (is_game_over ?p)))"
    by simp
  from c have c': "get_moves ?p = Some (fst (the (get_moves ?p)), snd (the (get_moves ?p)))"
    by simp
  show ?thesis using illegal_move_forfeits[OF a' conjunct2[OF a] c' conjunct2[OF c]] w by simp
qed

text \<open>
  Claim C10. When \<open>make_move\<close> returns without applying the move, because the game is
  already over or because \<open>check_legal\<close> is on and the from/to pair is not a legal move,
  the board, side to move, castling rights, en passant target, halfmove and fullmove
  counters, position history and move history are what they were before the call.
\<close>

theorem rejected_move_leaves_position:
  assumes "make_move mv check_legal p = Some (r, q)"
    and "(\<exists>st p1. is_game_over p = Some (st, p1) \<and> over st)
         \<or> (check_legal \<and> (\<exists>legal p2. get_moves p = Some (legal, p2)
               \<and> \<not> list_ex (\<lambda>m. from_sq m = from_sq mv \<and> to_sq m = to_sq mv) legal))"
  shows "board q = board p \<and> white_to_play q = white_to_play p
         \<and> castling_rights q = castling_rights p \<and> en_passant q = en_passant p
         \<and> halfmove q = halfmove p \<and> fullmove q = fullmove p
         \<and> position_history q = position_history p \<and> move_history q = move_history p"
proof -
  from assms(1) obtain st p1 where go: "is_game_over p = Some (st, p1)"
    by (auto simp: make_move_def split: option.splits)
  have p1: "p1 = p\<lparr>moves_cache := moves_cache p1\<rparr>" by (rule is_game_over_same[OF go])
  have "q = p\<lparr>moves_cache := moves_cache q\<rparr>"
  proof (cases "over st")
    case True
    then have "q = p1" using assms(1) go by (simp add: make_move_def)
    then show ?thesis using p1 by simp
  next
    case False
    from is_game_over_not_over[OF go False] obtain ms where
      gm: "get_moves p = Some (ms, p1)" by blast
    from assms(2) False go gm have cl: check_legal
      and ill: "\<not> list_ex (\<lambda>m. from_sq m = from_sq mv \<and> to_sq m = to_sq mv) ms"
      by auto
    have "get_moves p1 = Some (ms, p1)" by (rule get_moves_again[OF gm])
    then have "q = p1" using assms(1) go False cl ill by (simp add: make_move_def)
    then show ?thesis using p1 by simp
  qed
  from same_but_cache_fields[OF this] show ?thesis by simp
qed

theorem rejected_move_leaves_position_witness:
  "make_move (Move ''E2'' ''E5'' None) True pos_king_pawn \<noteq> None
   \<and> board (snd (the (make_move (Move ''E2'' ''E5'' None) True pos_king_pawn)))
       = board pos_king_pawn
   \<and> move_history (snd (the (make_move (Move ''E2'' ''E5'' None) True pos_king_pawn)))
       = move_history pos_king_pawn
   \<and> make_move (Move ''A1'' ''A2'' None) False pos_fifty \<noteq> None
   \<and> board (snd (the (make_move (Move ''A1'' ''A2'' None) False pos_fifty))) = board pos_fifty
   \<and> position_history (snd (the (make_move (Move ''A1'' ''A2'' None) False pos_fifty)))
       = position_history pos_fifty"
proof -
  let ?m = "Move ''E2'' ''E5'' None" and ?p = pos_king_pawn
  let ?m2 = "Move ''A1'' ''A2'' None" and ?p2 = pos_fifty
  have m: "make_move ?m True ?p \<noteq> None" by code_simp
  have c: "get_moves ?p \<noteq> None \<and> \<not> list_ex (\<lambda>m. from_sq m = from_sq ?m
              \<and> to_sq m = to_sq ?m) (fst (the (get_moves ?p)))"
    by code_simp
  have m2: "make_move ?m2 False ?p2 \<noteq> None" by code_simp
  have g: "is_game_over ?p2 \<noteq> None \<and> over (fst (the (is_game_over ?p2)))" by code_simp
  from m have m': "make_move ?m True ?p
      = Some (fst (the (make_move ?m True ?p)), snd (the (make_move ?m True ?p)))" by simp
  from m2 have m2': "make_move ?m2 False ?p2
      = Some (fst (the (make_move ?m2 False ?p2)), snd (the (make_move ?m2 False ?p2)))" by simp
  from c have c': "True \<and> (\<exists>legal p2. get_moves ?p = Some (legal, p2)
      \<and> \<not> list_ex (\<lambda>m. from_sq m = from_sq ?m \<and> to_sq m = to_sq ?m) legal)"
    by (cases "get_moves ?p") auto
  from g have g': "\<exists>st p1. is_game_over ?p2 = Some (st, p1) \<and> over st"
    by (cases "is_game_over ?p2") auto
  show ?thesis
    using rejected_move_leaves_position[OF m' disjI2[OF c']]
          rejected_move_leaves_position[OF m2' disjI1[OF g']] m m2
    by simp
qed

end
